theory Spec2Isabelle
  imports Main "HOL-Library.Word"
begin

unbundle bit_operations_syntax

section \<open>Python values used by disktools.py\<close>

text \<open>
  The buffers handed to \<open>BAM\<close> and \<open>Dir\<close> are bytearrays: sequences of 8-bit values that
  can be read and written by index. A Python \<open>str\<close> is a sequence of code points; a code
  point is a natural number, and \<open>chr\<close>/\<open>ord\<close> are the identity between the two views.
  Python integers are unbounded, so every computed number is an \<open>int\<close>; \<open>//\<close> and \<open>%\<close>
  round towards minus infinity, as \<open>div\<close> and \<open>mod\<close> do on \<open>int\<close>.
\<close>

type_synonym byte = "8 word"
type_synonym bytes = "byte list"
type_synonym pystr = "nat list"

datatype error = IndexError | ValueError

definition str :: "string \<Rightarrow> pystr" where
  "str s = map of_char s"

text \<open>Sequencing of two steps of which the first may raise.\<close>

definition and_then :: "error + 'a \<Rightarrow> ('a \<Rightarrow> error + 'b) \<Rightarrow> error + 'b" where
  "and_then r f = (case r of Inl e \<Rightarrow> Inl e | Inr v \<Rightarrow> f v)"

text \<open>
  Subscripting a sequence of length \<open>n\<close> with an integer: \<open>0 .. n-1\<close> address the
  elements from the front, \<open>-n .. -1\<close> from the back, anything else raises IndexError.
\<close>

definition norm_index :: "nat \<Rightarrow> int \<Rightarrow> nat option" where
  "norm_index n i =
     (if 0 \<le> i \<and> i < int n then Some (nat i)
      else if - int n \<le> i \<and> i < 0 then Some (nat (int n + i))
      else None)"

definition getitem :: "'a list \<Rightarrow> int \<Rightarrow> error + 'a" where
  "getitem xs i =
     (case norm_index (length xs) i of
        None \<Rightarrow> Inl IndexError
      | Some k \<Rightarrow> Inr (xs ! k))"

text \<open>
  Item assignment on a bytearray: the index is checked first, then the value, which must
  lie in \<open>range(256)\<close> (ValueError otherwise).
\<close>

definition setitem :: "bytes \<Rightarrow> int \<Rightarrow> int \<Rightarrow> error + bytes" where
  "setitem b i v =
     (case norm_index (length b) i of
        None \<Rightarrow> Inl IndexError
      | Some k \<Rightarrow> if 0 \<le> v \<and> v < 256 then Inr (b[k := word_of_int v]) else Inl ValueError)"

text \<open>The slice \<open>xs[lo:hi]\<close> for constant bounds \<open>0 \<le> lo \<le> hi\<close>; slicing never raises.\<close>

definition slice :: "'a list \<Rightarrow> nat \<Rightarrow> nat \<Rightarrow> 'a list" where
  "slice xs lo hi = drop lo (take hi xs)"

text \<open>\<open>range(start, stop, step)\<close> for a positive step.\<close>

definition range3 :: "int \<Rightarrow> int \<Rightarrow> int \<Rightarrow> int list" where
  "range3 start stop step = map (\<lambda>k. start + step * k) [0 .. (stop - start - 1) div step]"

text \<open>\<open>s.ljust(width)\<close>: pads with spaces on the right, never truncates.\<close>

definition ljust :: "pystr \<Rightarrow> nat \<Rightarrow> pystr" where
  "ljust s width = s @ replicate (width - length s) 0x20"

text \<open>
  \<open>str.upper\<close>, code point by code point, on the code points below 256 (the only ones
  that reach it here: table entries and ASCII literals). The micro sign and the sharp s
  have upper-case forms outside that range or of two letters.
\<close>

definition upper_cp :: "nat \<Rightarrow> pystr" where
  "upper_cp c =
     (if 0x61 \<le> c \<and> c \<le> 0x7A then [c - 0x20]
      else if c = 0xB5 then [0x39C]
      else if c = 0xDF then [0x53, 0x53]
      else if 0xE0 \<le> c \<and> c \<le> 0xFE \<and> c \<noteq> 0xF7 then [c - 0x20]
      else if c = 0xFF then [0x178]
      else [c])"

definition upper :: "pystr \<Rightarrow> pystr" where
  "upper s = concat (map upper_cp s)"

text \<open>\<open>int.from_bytes(bs, byteorder='little')\<close>.\<close>

definition from_bytes_little :: "bytes \<Rightarrow> int" where
  "from_bytes_little bs = foldr (\<lambda>b acc. uint b + 256 * acc) bs 0"


section \<open>PETSCII functions\<close>

definition PETtoASCtable :: "nat list" where
  "PETtoASCtable = [
    0x00, 0x01, 0x02, 0x03, 0x04, 0x05, 0x06, 0x07, 0x14, 0x09, 0x0d, 0x11, 0x93, 0x0a, 0x0e, 0x0f,
    0x10, 0x0b, 0x12, 0x13, 0x08, 0x15, 0x16, 0x17, 0x18, 0x19, 0x1a, 0x1b, 0x1c, 0x1d, 0x1e, 0x1f,
    0x20, 0x21, 0x22, 0x23, 0x24, 0x25, 0x26, 0x27, 0x28, 0x29, 0x2a, 0x2b, 0x2c, 0x2d, 0x2e, 0x2f,
    0x30, 0x31, 0x32, 0x33, 0x34, 0x35, 0x36, 0x37, 0x38, 0x39, 0x3a, 0x3b, 0x3c, 0x3d, 0x3e, 0x3f,
    0x40, 0x61, 0x62, 0x63, 0x64, 0x65, 0x66, 0x67, 0x68, 0x69, 0x6a, 0x6b, 0x6c, 0x6d, 0x6e, 0x6f,
    0x70, 0x71, 0x72, 0x73, 0x74, 0x75, 0x76, 0x77, 0x78, 0x79, 0x7a, 0x5b, 0x5c, 0x5d, 0x5e, 0x5f,
    0xc0, 0xc1, 0xc2, 0xc3, 0xc4, 0xc5, 0xc6, 0xc7, 0xc8, 0xc9, 0xca, 0xcb, 0xcc, 0xcd, 0xce, 0xcf,
    0xd0, 0xd1, 0xd2, 0xd3, 0xd4, 0xd5, 0xd6, 0xd7, 0xd8, 0xd9, 0xda, 0xdb, 0xdc, 0xdd, 0xde, 0xdf,
    0x80, 0x81, 0x82, 0x83, 0x84, 0x85, 0x86, 0x87, 0x88, 0x89, 0x8a, 0x8b, 0x8c, 0x8d, 0x8e, 0x8f,
    0x90, 0x91, 0x92, 0x0c, 0x94, 0x95, 0x96, 0x97, 0x98, 0x99, 0x9a, 0x9b, 0x9c, 0x9d, 0x9e, 0x9f,
    0xa0, 0xa1, 0xa2, 0xa3, 0xa4, 0xa5, 0xa6, 0xa7, 0xa8, 0xa9, 0xaa, 0xab, 0xac, 0xad, 0xae, 0xaf,
    0xb0, 0xb1, 0xb2, 0xb3, 0xb4, 0xb5, 0xb6, 0xb7, 0xb8, 0xb9, 0xba, 0xbb, 0xbc, 0xbd, 0xbe, 0xbf,
    0x60, 0x41, 0x42, 0x43, 0x44, 0x45, 0x46, 0x47, 0x48, 0x49, 0x4a, 0x4b, 0x4c, 0x4d, 0x4e, 0x4f,
    0x50, 0x51, 0x52, 0x53, 0x54, 0x55, 0x56, 0x57, 0x58, 0x59, 0x5a, 0x7b, 0x7c, 0x7d, 0x7e, 0x7f,
    0xa0, 0xa1, 0xa2, 0xa3, 0xa4, 0xa5, 0xa6, 0xa7, 0xa8, 0xa9, 0xaa, 0xab, 0xac, 0xad, 0xae, 0xaf,
    0xb0, 0xb1, 0xb2, 0xb3, 0xb4, 0xb5, 0xb6, 0xb7, 0xb8, 0xb9, 0xba, 0xbb, 0xbc, 0xbd, 0xbe, 0xbf]"

definition ASCtoPETtable :: "nat list" where
  "ASCtoPETtable = [
    0x00, 0x01, 0x02, 0x03, 0x04, 0x05, 0x06, 0x07, 0x14, 0x20, 0x0d, 0x11, 0x93, 0x0a, 0x0e, 0x0f,
    0x10, 0x0b, 0x12, 0x13, 0x08, 0x15, 0x16, 0x17, 0x18, 0x19, 0x1a, 0x1b, 0x1c, 0x1d, 0x1e, 0x1f,
    0x20, 0x21, 0x22, 0x23, 0x24, 0x25, 0x26, 0x27, 0x28, 0x29, 0x2a, 0x2b, 0x2c, 0x2d, 0x2e, 0x2f,
    0x30, 0x31, 0x32, 0x33, 0x34, 0x35, 0x36, 0x37, 0x38, 0x39, 0x3a, 0x3b, 0x3c, 0x3d, 0x3e, 0x3f,
    0x40, 0xc1, 0xc2, 0xc3, 0xc4, 0xc5, 0xc6, 0xc7, 0xc8, 0xc9, 0xca, 0xcb, 0xcc, 0xcd, 0xce, 0xcf,
    0xd0, 0xd1, 0xd2, 0xd3, 0xd4, 0xd5, 0xd6, 0xd7, 0xd8, 0xd9, 0xda, 0x5b, 0x5c, 0x5d, 0x5e, 0x5f,
    0xc0, 0x41, 0x42, 0x43, 0x44, 0x45, 0x46, 0x47, 0x48, 0x49, 0x4a, 0x4b, 0x4c, 0x4d, 0x4e, 0x4f,
    0x50, 0x51, 0x52, 0x53, 0x54, 0x55, 0x56, 0x57, 0x58, 0x59, 0x5a, 0xdb, 0xdc, 0xdd, 0xde, 0xdf,
    0x80, 0x81, 0x82, 0x83, 0x84, 0x85, 0x86, 0x87, 0x88, 0x89, 0x8a, 0x8b, 0x8c, 0x8d, 0x8e, 0x8f,
    0x90, 0x91, 0x92, 0x0c, 0x94, 0x95, 0x96, 0x97, 0x98, 0x99, 0x9a, 0x9b, 0x9c, 0x9d, 0x9e, 0x9f,
    0xa0, 0xa1, 0xa2, 0xa3, 0xa4, 0xa5, 0xa6, 0xa7, 0xa8, 0xa9, 0xaa, 0xab, 0xac, 0xad, 0xae, 0xaf,
    0xb0, 0xb1, 0xb2, 0xb3, 0xb4, 0xb5, 0xb6, 0xb7, 0xb8, 0xb9, 0xba, 0xbb, 0xbc, 0xbd, 0xbe, 0xbf,
    0x60, 0x61, 0x62, 0x63, 0x64, 0x65, 0x66, 0x67, 0x68, 0x69, 0x6a, 0x6b, 0x6c, 0x6d, 0x6e, 0x6f,
    0x70, 0x71, 0x72, 0x73, 0x74, 0x75, 0x76, 0x77, 0x78, 0x79, 0x7a, 0x7b, 0x7c, 0x7d, 0x7e, 0x7f,
    0xe0, 0xe1, 0xe2, 0xe3, 0xe4, 0xe5, 0xe6, 0xe7, 0xe8, 0xe9, 0xea, 0xeb, 0xec, 0xed, 0xee, 0xef,
    0xf0, 0xf1, 0xf2, 0xf3, 0xf4, 0xf5, 0xf6, 0xf7, 0xf8, 0xf9, 0xfa, 0xfb, 0xfc, 0xfd, 0xfe, 0xff]"

definition FILETYPES :: "pystr list" where
  "FILETYPES = [str ''DEL'', str ''SEQ'', str ''PRG'', str ''USR'', str ''REL'']"

text \<open>
  \<open>PETtoASC\<close> iterates over bytes, so its index into the 256-entry table is always in
  range; \<open>ASCtoPET\<close> iterates over a \<open>str\<close> and indexes with \<open>ord(x)\<close>, which raises
  IndexError for a code point above 255.
\<close>

definition PETtoASC :: "bytes \<Rightarrow> pystr" where
  "PETtoASC line = map (\<lambda>x. PETtoASCtable ! unat x) line"

fun ASCtoPET_loop :: "pystr \<Rightarrow> pystr \<Rightarrow> error + pystr" where
  "ASCtoPET_loop result [] = Inr result"
| "ASCtoPET_loop result (x # line) =
     and_then (getitem ASCtoPETtable (int x)) (\<lambda>v. ASCtoPET_loop (result @ [v]) line)"

definition ASCtoPET :: "pystr \<Rightarrow> error + pystr" where
  "ASCtoPET line = ASCtoPET_loop [] line"

definition PETdelpadding :: "bytes \<Rightarrow> bytes" where
  "PETdelpadding line = filter (\<lambda>x. x \<noteq> 0xA0) line"


section \<open>Basic functions to work with a disk\<close>

definition getsectors :: "int \<Rightarrow> int" where
  "getsectors track =
     (if track < 1 then 0
      else if track < 18 then 21
      else if track < 25 then 19
      else if track < 31 then 18
      else if track < 41 then 17
      else 0)"

definition getsectornumber :: "int \<Rightarrow> int \<Rightarrow> int" where
  "getsectornumber track sector =
     foldl (\<lambda>number x. number + getsectors x) 0 [1 .. track - 1] + sector"

definition getfilepointer :: "int \<Rightarrow> int \<Rightarrow> int" where
  "getfilepointer track sector = 256 * getsectornumber track sector"


section \<open>The BAM class\<close>

record BAM =
  bam :: bytes

definition BAM_init :: "bytes \<Rightarrow> BAM" where
  "BAM_init b = \<lparr>bam = b\<rparr>"

definition getdiskname :: "BAM \<Rightarrow> pystr" where
  "getdiskname self = PETtoASC (PETdelpadding (slice (bam self) 0x90 0xA0))"

definition getdiskident :: "BAM \<Rightarrow> pystr" where
  "getdiskident self = PETtoASC (slice (bam self) 0xA2 0xA4)"

definition getheader :: "BAM \<Rightarrow> pystr" where
  "getheader self =
     upper (str ''0    '' @ [0x22]
            @ ljust (getdiskname self @ [0x22]) 19
            @ ljust (getdiskident self) 3
            @ PETtoASC (slice (bam self) 0xA5 0xA7))"

fun getblocksfree_loop :: "bytes \<Rightarrow> int \<Rightarrow> int list \<Rightarrow> error + int" where
  "getblocksfree_loop b blocksfree [] = Inr blocksfree"
| "getblocksfree_loop b blocksfree (x # xs) =
     (if x \<noteq> 0x48
      then and_then (getitem b x) (\<lambda>v. getblocksfree_loop b (blocksfree + uint v) xs)
      else getblocksfree_loop b blocksfree xs)"

definition getblocksfree :: "BAM \<Rightarrow> error + int" where
  "getblocksfree self = getblocksfree_loop (bam self) 0 (range3 0x04 0x90 0x04)"

fun getallocated_loop :: "bytes \<Rightarrow> int \<Rightarrow> int list \<Rightarrow> error + int" where
  "getallocated_loop b allocated [] = Inr allocated"
| "getallocated_loop b allocated (x # xs) =
     and_then (getitem b x)
       (\<lambda>v. getallocated_loop b (allocated + (getsectors (x div 4) - uint v)) xs)"

definition getallocated :: "BAM \<Rightarrow> error + int" where
  "getallocated self = getallocated_loop (bam self) 0 (range3 0x04 0x90 0x04)"

definition blockisfree :: "BAM \<Rightarrow> int \<Rightarrow> int \<Rightarrow> error + bool" where
  "blockisfree self track sector =
     and_then (getitem (bam self) (4 * track + 1 + sector div 8))
       (\<lambda>v. Inr (uint v AND push_bit (nat (sector mod 8)) 1 > 0))"

definition allocateblock :: "BAM \<Rightarrow> int \<Rightarrow> int \<Rightarrow> error + BAM" where
  "allocateblock self track sector =
     and_then (getitem (bam self) (4 * track + 1 + sector div 8))
       (\<lambda>v. let temp = uint v AND (255 - push_bit (nat (sector mod 8)) 1)
            in and_then (setitem (bam self) (4 * track + 1 + sector div 8) temp)
                 (\<lambda>b. Inr (self\<lparr>bam := b\<rparr>)))"

definition deallocateblock :: "BAM \<Rightarrow> int \<Rightarrow> int \<Rightarrow> error + BAM" where
  "deallocateblock self track sector =
     and_then (getitem (bam self) (4 * track + 1 + sector div 8))
       (\<lambda>v. let temp = uint v OR push_bit (nat (sector mod 8)) 1
            in and_then (setitem (bam self) (4 * track + 1 + sector div 8) temp)
                 (\<lambda>b. Inr (self\<lparr>bam := b\<rparr>)))"


section \<open>The Dir class\<close>

text \<open>
  One entry of \<open>filelist\<close> is a dict with a fixed set of keys; the record has one field per
  key (\<open>f_type\<close> for the key \<open>'type'\<close>, and so on).
\<close>

record file_entry =
  f_base :: int
  f_type :: pystr
  f_locked :: bool
  f_closed :: bool
  f_track :: int
  f_sector :: int
  f_name :: pystr
  f_size :: int

text \<open>
  The attributes of a \<open>Dir\<close> object: \<open>dir_bam\<close> is the attribute \<open>bam\<close> (the name is
  taken by the field of \<open>BAM\<close>), the others carry their names.
\<close>

record Dir =
  dir_bam :: BAM
  dir :: bytes
  title :: pystr
  ident :: pystr
  blocksfree :: int
  header :: pystr
  filelist :: "file_entry list"

text \<open>
  The body of the loop of \<open>dirpass\<close> for one value of \<open>ptr\<close>: the entry to append, or
  \<open>None\<close> for a slot whose type byte is zero.
\<close>

definition dirslot :: "bytes \<Rightarrow> int \<Rightarrow> error + file_entry option" where
  "dirslot d ptr =
     (let base = 0x20 * ptr in
      and_then (getitem d (base + 0x02)) (\<lambda>t.
        if uint t > 0 then
          and_then (getitem FILETYPES (uint t AND 0x07)) (\<lambda>ty.
          and_then (getitem d (base + 0x03)) (\<lambda>tr.
          and_then (getitem d (base + 0x04)) (\<lambda>se.
            Inr (Some \<lparr>f_base = base,
                       f_type = ty,
                       f_locked = (uint t AND 0x40 > 0),
                       f_closed = (uint t AND 0x80 > 0),
                       f_track = uint tr,
                       f_sector = uint se,
                       f_name = PETtoASC (PETdelpadding
                                  (slice d (nat (base + 0x05)) (nat (base + 0x15)))),
                       f_size = from_bytes_little
                                  (slice d (nat (base + 0x1E)) (nat (base + 0x20)))\<rparr>))))
        else Inr None))"

fun dirpass_loop :: "bytes \<Rightarrow> file_entry list \<Rightarrow> int list \<Rightarrow> error + file_entry list" where
  "dirpass_loop d fl [] = Inr fl"
| "dirpass_loop d fl (ptr # ptrs) =
     and_then (dirslot d ptr)
       (\<lambda>r. dirpass_loop d (case r of None \<Rightarrow> fl | Some f \<Rightarrow> fl @ [f]) ptrs)"

text \<open>
  \<open>dirpass\<close> sets title, ident, blocksfree and header, then runs the loop over the
  slots. Of the four only \<open>getblocksfree\<close> can raise, so its result is taken first and the
  object is put together at the end.
\<close>

definition dirpass :: "BAM \<Rightarrow> bytes \<Rightarrow> error + Dir" where
  "dirpass b d =
     and_then (getblocksfree b) (\<lambda>free.
     and_then (dirpass_loop d [] [0 .. int (length d) div 0x20 - 1]) (\<lambda>fl.
       Inr \<lparr>dir_bam = b, dir = d,
            title = getdiskname b,
            ident = getdiskident b,
            blocksfree = free,
            header = getheader b,
            filelist = fl\<rparr>))"

definition Dir_init :: "bytes \<Rightarrow> error + Dir" where
  "Dir_init dirblocks = dirpass (BAM_init (take 256 dirblocks)) (drop 256 dirblocks)"


section \<open>Buffers for the scenarios of the specification\<close>

text \<open>
  A BAM sector in which track 1 is fully free: free-count byte 21 at offset 4 and the 21
  bitmap bits set in the bytes at offsets 5, 6 and 7. Every other byte is zero.
\<close>

definition track1_free :: bytes where
  "track1_free = (replicate 256 0)[4 := 21, 5 := 0xFF, 6 := 0xFF, 7 := 0x1F]"

text \<open>
  The PETSCII bytes of an ASCII text, as \<open>ASCtoPET\<close> gives them (the code points it
  returns are all below 256).
\<close>

definition encode :: "string \<Rightarrow> bytes" where
  "encode s = (case ASCtoPET (str s) of Inl e \<Rightarrow> [] | Inr cs \<Rightarrow> map of_nat cs)"

text \<open>
  The directory scenario: a BAM sector with the disk name \<open>TEST DISK\<close> padded with
  \<open>0xA0\<close> to 16 bytes at offset \<open>0x90\<close>, the ID \<open>8A\<close> at \<open>0xA2\<close> and the DOS type \<open>2A\<close>
  at \<open>0xA5\<close>, and one directory sector whose first slot holds a closed, unlocked PRG
  file (type byte \<open>0x82\<close>) named \<open>HELLO\<close> at track 17, sector 0, of 5 blocks; the seven
  other slots are empty.
\<close>

definition scenario_bam :: bytes where
  "scenario_bam =
     [18, 1, 0x41, 0] @ replicate 140 0
     @ encode ''TEST DISK'' @ replicate 7 0xA0
     @ [0xA0, 0xA0] @ encode ''8A'' @ [0xA0] @ encode ''2A'' @ replicate 4 0xA0
     @ replicate 85 0"

definition scenario_dir :: bytes where
  "scenario_dir =
     [0, 0xFF, 0x82, 17, 0] @ encode ''HELLO'' @ replicate 11 0xA0
     @ replicate 9 0 @ [5, 0]
     @ replicate 224 0"

text \<open>
  The same scenario with the letters in the unshifted PETSCII codes \<open>0x41\<close> to \<open>0x5A\<close>,
  which are the ASCII codes of the upper-case letters and the bytes a disk image holds
  for a name typed in upper case: \<open>TEST DISK\<close> is \<open>54 45 53 54 20 44 49 53 4B\<close>.
\<close>

definition unshifted :: "string \<Rightarrow> bytes" where
  "unshifted s = map of_char s"

definition image_bam :: bytes where
  "image_bam =
     [18, 1, 0x41, 0] @ replicate 140 0
     @ unshifted ''TEST DISK'' @ replicate 7 0xA0
     @ [0xA0, 0xA0] @ unshifted ''8A'' @ [0xA0] @ unshifted ''2A'' @ replicate 4 0xA0
     @ replicate 85 0"

definition image_dir :: bytes where
  "image_dir =
     [0, 0xFF, 0x82, 17, 0] @ unshifted ''HELLO'' @ replicate 11 0xA0
     @ replicate 9 0 @ [5, 0]
     @ replicate 224 0"

text \<open>
  A zeroed BAM sector followed by two directory slots: the first with type byte 0, the
  second with type byte \<open>0x81\<close> (a closed SEQ file).
\<close>

definition two_slots :: bytes where
  "two_slots = replicate 256 0 @ replicate 32 0 @ [0, 0, 0x81] @ replicate 29 0"


section \<open>Subscripting and the bit arithmetic of the BAM\<close>

lemma norm_index_front: "0 \<le> i \<Longrightarrow> i < int n \<Longrightarrow> norm_index n i = Some (nat i)"
  by (simp add: norm_index_def)


lemma norm_index_less: "norm_index n i = Some k \<Longrightarrow> k < n"
  by (auto simp add: norm_index_def split: if_splits)

lemma getitem_front: "0 \<le> i \<Longrightarrow> i < int (length xs) \<Longrightarrow> getitem xs i = Inr (xs ! nat i)"
  by (simp add: getitem_def norm_index_front)

lemma bit_k_less_8: "nat (sector mod 8) < 8"
  by (simp add: nat_less_iff)

lemma bit_test: "(uint (v::byte) AND 2 ^ k > 0) = bit v k"
proof -
  have "uint v AND 2 ^ k \<ge> 0" by simp
  moreover have "(uint v AND 2 ^ k = 0) = (\<not> bit (uint v) k)"
    by (rule and_exp_eq_0_iff_not_bit)
  ultimately show ?thesis
    using bit_imp_le_length[of v k] by (auto simp add: bit_uint_iff less_le)
qed

lemma clear_mask: "k < 8 \<Longrightarrow> (255::int) - 2 ^ k = unset_bit k (mask 8)"
proof -
  assume "k < 8"
  then have "k \<in> {0, 1, 2, 3, 4, 5, 6, 7}" by auto
  then show ?thesis by (auto simp add: unset_bit_eq_and_not mask_eq_exp_minus_1)
qed

lemma clear_word: "k < 8 \<Longrightarrow> word_of_int (uint (v::byte) AND (255 - 2 ^ k)) = unset_bit k v"
  apply (simp only: clear_mask)
  apply (rule bit_word_eqI)
  apply (auto simp add: bit_simps)
  done

lemma clear_range:
  "k < 8 \<Longrightarrow> 0 \<le> uint (v::byte) AND (255 - 2 ^ k) \<and> uint v AND (255 - 2 ^ k) < 256"
  using uint_lt2p[of v] AND_upper1'[of "uint v" 255 "255 - 2 ^ k"] by auto

lemma set_word: "word_of_int (uint (v::byte) OR 2 ^ k) = set_bit k v"
  apply (rule bit_word_eqI)
  apply (auto simp add: bit_simps)
  done

lemma set_range: "k < 8 \<Longrightarrow> 0 \<le> uint (v::byte) OR 2 ^ k \<and> uint v OR 2 ^ k < 256"
proof -
  assume "k < 8"
  then have "k \<in> {0, 1, 2, 3, 4, 5, 6, 7}" by auto
  then show ?thesis using uint_lt2p[of v] OR_upper[of "uint v" 8 "2 ^ k"] by auto
qed

text \<open>The three bit operations, for an index that subscripting accepts.\<close>

lemma blockisfree_at:
  "norm_index (length (bam self)) (4 * track + 1 + sector div 8) = Some j \<Longrightarrow>
   blockisfree self track sector = Inr (bit (bam self ! j) (nat (sector mod 8)))"
  by (simp add: blockisfree_def getitem_def and_then_def bit_test)

lemma allocateblock_at:
  "norm_index (length (bam self)) (4 * track + 1 + sector div 8) = Some j \<Longrightarrow>
   allocateblock self track sector =
     Inr (self\<lparr>bam := (bam self)[j := unset_bit (nat (sector mod 8)) (bam self ! j)]\<rparr>)"
  by (simp add: allocateblock_def getitem_def setitem_def and_then_def Let_def
      clear_word[OF bit_k_less_8] clear_range[OF bit_k_less_8])

lemma deallocateblock_at:
  "norm_index (length (bam self)) (4 * track + 1 + sector div 8) = Some j \<Longrightarrow>
   deallocateblock self track sector =
     Inr (self\<lparr>bam := (bam self)[j := set_bit (nat (sector mod 8)) (bam self ! j)]\<rparr>)"
  by (simp add: deallocateblock_def getitem_def setitem_def and_then_def Let_def
      set_word set_range[OF bit_k_less_8])

lemma bitop_raises:
  "norm_index (length (bam self)) (4 * track + 1 + sector div 8) = None \<Longrightarrow>
   blockisfree self track sector = Inl IndexError \<and>
   allocateblock self track sector = Inl IndexError \<and>
   deallocateblock self track sector = Inl IndexError"
  by (simp add: blockisfree_def allocateblock_def deallocateblock_def getitem_def and_then_def)

lemma unset_bit_twice: "unset_bit k (unset_bit k (w::byte)) = unset_bit k w"
  by (rule bit_eqI) (auto simp add: bit_unset_bit_iff)

lemma set_bit_twice: "set_bit k (set_bit k (w::byte)) = set_bit k w"
  by (rule bit_eqI) (auto simp add: bit_set_bit_iff)


section \<open>The loop of getblocksfree\<close>

lemma getitem_cases: "getitem xs i = Inl IndexError \<or> (\<exists>v. getitem xs i = Inr v)"
  by (simp add: getitem_def split: option.split)

lemma getitem_beyond: "int (length xs) \<le> i \<Longrightarrow> getitem xs i = Inl IndexError"
  by (simp add: getitem_def norm_index_def)

lemma count_offsets: "range3 0x04 0x90 0x04 =
  [4, 8, 12, 16, 20, 24, 28, 32, 36, 40, 44, 48, 52, 56, 60, 64, 68, 72, 76, 80, 84, 88, 92,
   96, 100, 104, 108, 112, 116, 120, 124, 128, 132, 136, 140]"
  by code_simp

lemma tracks_1_35: "[1 .. 35 :: int] =
  [1, 2, 3, 4, 5, 6, 7, 8, 9, 10, 11, 12, 13, 14, 15, 16, 17, 18, 19, 20, 21, 22, 23, 24, 25,
   26, 27, 28, 29, 30, 31, 32, 33, 34, 35]"
  by code_simp

lemma getblocksfree_loop_sum:
  "\<forall>x \<in> set xs. 0 \<le> x \<and> x < int (length b) \<Longrightarrow>
   getblocksfree_loop b acc xs =
     Inr (acc + sum_list (map (\<lambda>x. uint (b ! nat x)) (filter (\<lambda>x. x \<noteq> 0x48) xs)))"
proof (induction xs arbitrary: acc)
  case Nil
  then show ?case by simp
next
  case (Cons x xs)
  then show ?case by (simp add: getitem_front and_then_def)
qed

lemma getblocksfree_loop_update:
  "\<forall>x \<in> set xs. 0 \<le> x \<Longrightarrow>
   getblocksfree_loop (b[0x48 := v]) acc xs = getblocksfree_loop b acc xs"
proof (induction xs arbitrary: acc)
  case Nil
  then show ?case by simp
next
  case (Cons x xs)
  have "getitem (b[0x48 := v]) x = getitem b x" if "x \<noteq> 0x48"
    using that Cons.prems by (auto simp add: getitem_def norm_index_def)
  with Cons show ?case by (simp add: and_then_def)
qed

lemma getblocksfree_loop_raises:
  "x \<in> set xs \<Longrightarrow> x \<noteq> 0x48 \<Longrightarrow> getitem b x = Inl IndexError \<Longrightarrow>
   getblocksfree_loop b acc xs = Inl IndexError"
proof (induction xs arbitrary: acc)
  case Nil
  then show ?case by simp
next
  case (Cons y ys)
  show ?case
  proof (cases "y = x")
    case True
    with Cons.prems show ?thesis by (simp add: and_then_def)
  next
    case False
    with Cons.prems have "x \<in> set ys" by simp
    then have ih: "getblocksfree_loop b acc' ys = Inl IndexError" for acc'
      using Cons.IH Cons.prems by blast
    from getitem_cases[of b y] show ?thesis
      by (auto simp add: ih and_then_def)
  qed
qed

lemma getblocksfree_short:
  assumes "length b < 141"
  shows "getblocksfree \<lparr>bam = b\<rparr> = Inl IndexError"
proof -
  have "getitem b 140 = Inl IndexError"
    using assms by (simp add: getitem_beyond)
  then have "getblocksfree_loop b 0 (range3 0x04 0x90 0x04) = Inl IndexError"
    unfolding count_offsets by (rule getblocksfree_loop_raises[rotated 2]) simp_all
  then show ?thesis by (simp add: getblocksfree_def)
qed

lemma getblocksfree_long:
  assumes "141 \<le> length b"
  shows "\<exists>n. getblocksfree \<lparr>bam = b\<rparr> = Inr n"
proof -
  have "\<forall>x \<in> set (range3 0x04 0x90 0x04). 0 \<le> x \<and> x < int (length b)"
    unfolding count_offsets using assms by simp
  then show ?thesis
    by (simp add: getblocksfree_def getblocksfree_loop_sum)
qed

lemma Dir_init_short:
  assumes "length dirblocks < 141"
  shows "Dir_init dirblocks = Inl IndexError"
  using assms getblocksfree_short[of "take 256 dirblocks"]
  by (simp add: Dir_init_def dirpass_def BAM_init_def and_then_def)

lemma Dir_init_no_slot:
  assumes "141 \<le> length dirblocks" and "length dirblocks < 288"
  shows "\<exists>d. Dir_init dirblocks = Inr d \<and> filelist d = []"
proof -
  from assms(1) obtain n where n: "getblocksfree \<lparr>bam = take 256 dirblocks\<rparr> = Inr n"
    using getblocksfree_long[of "take 256 dirblocks"] by auto
  have "int (length (drop 256 dirblocks)) div 0x20 - 1 < 0"
    using assms(2) by simp
  then have "[0 .. int (length (drop 256 dirblocks)) div 0x20 - 1] = []"
    by simp
  then show ?thesis
    using n by (simp add: Dir_init_def dirpass_def BAM_init_def and_then_def)
qed


section \<open>The loop of dirpass\<close>

lemma dirslot_result:
  assumes p: "0 \<le> p" "0x20 * p + 0x02 < int (length d)"
    and r: "dirslot d p = Inr r"
  shows "(d ! nat (0x20 * p + 0x02) = 0 \<longrightarrow> r = None)
       \<and> (d ! nat (0x20 * p + 0x02) \<noteq> 0 \<longrightarrow> (\<exists>f. r = Some f \<and> f_base f = 0x20 * p))"
proof -
  have g: "getitem d (0x20 * p + 0x02) = Inr (d ! nat (0x20 * p + 0x02))"
    using p by (simp add: getitem_front)
  have z: "(0 < uint (d ! nat (0x20 * p + 0x02))) = (d ! nat (0x20 * p + 0x02) \<noteq> 0)"
    using uint_ge_0[of "d ! nat (0x20 * p + 0x02)"] uint_0_iff[of "d ! nat (0x20 * p + 0x02)"]
    by linarith
  show ?thesis
    using r g z
    by (auto simp add: dirslot_def Let_def and_then_def split: sum.splits if_splits)
qed

lemma dirpass_loop_bases:
  "dirpass_loop d fl ptrs = Inr fl' \<Longrightarrow>
   \<forall>p \<in> set ptrs. 0 \<le> p \<and> 0x20 * p + 0x02 < int (length d) \<Longrightarrow>
   map f_base fl' =
     map f_base fl @ map (\<lambda>p. 0x20 * p) (filter (\<lambda>p. d ! nat (0x20 * p + 0x02) \<noteq> 0) ptrs)"
proof (induction ptrs arbitrary: fl)
  case Nil
  then show ?case by simp
next
  case (Cons p ptrs)
  from Cons.prems(1) obtain r where
    r: "dirslot d p = Inr r" and
    rest: "dirpass_loop d (case r of None \<Rightarrow> fl | Some f \<Rightarrow> fl @ [f]) ptrs = Inr fl'"
    by (auto simp add: and_then_def split: sum.splits)
  have p: "0 \<le> p" "0x20 * p + 0x02 < int (length d)"
    using Cons.prems(2) by simp_all
  have ih: "map f_base fl' =
     map f_base (case r of None \<Rightarrow> fl | Some f \<Rightarrow> fl @ [f])
     @ map (\<lambda>p. 0x20 * p) (filter (\<lambda>p. d ! nat (0x20 * p + 0x02) \<noteq> 0) ptrs)"
    using Cons.IH[OF rest] Cons.prems(2) by simp
  show ?case
    using dirslot_result[OF p r] ih by auto
qed

lemma slots_in_range:
  "\<forall>p \<in> set [0 .. int (length d) div 0x20 - 1]. 0 \<le> p \<and> 0x20 * p + 0x02 < int (length d)"
  by auto

lemma Dir_init_filelist:
  assumes "Dir_init dirblocks = Inr d"
  shows "dirpass_loop (drop 256 dirblocks) [] [0 .. int (length (drop 256 dirblocks)) div 0x20 - 1]
           = Inr (filelist d)"
  using assms
  by (auto simp add: Dir_init_def dirpass_def and_then_def split: sum.splits)

lemma scenario_parse:
  "Dir_init (scenario_bam @ scenario_dir) =
     Inr \<lparr>dir_bam = \<lparr>bam = scenario_bam\<rparr>, dir = scenario_dir,
          title = str ''TEST DISK'', ident = str ''8A'', blocksfree = 0,
          header = str ''0    '' @ [0x22] @ str ''TEST DISK'' @ [0x22] @ str ''         8A 2A'',
          filelist = [\<lparr>f_base = 0, f_type = str ''PRG'', f_locked = False, f_closed = True,
                       f_track = 17, f_sector = 0, f_name = str ''HELLO'', f_size = 5\<rparr>]\<rparr>"
  by code_simp

lemma image_parse:
  "Dir_init (image_bam @ image_dir) =
     Inr \<lparr>dir_bam = \<lparr>bam = image_bam\<rparr>, dir = image_dir,
          title = str ''test disk'', ident = str ''8a'', blocksfree = 0,
          header = str ''0    '' @ [0x22] @ str ''TEST DISK'' @ [0x22] @ str ''         8A 2A'',
          filelist = [\<lparr>f_base = 0, f_type = str ''PRG'', f_locked = False, f_closed = True,
                       f_track = 17, f_sector = 0, f_name = str ''hello'', f_size = 5\<rparr>]\<rparr>"
  by code_simp

lemma two_slots_parse: "\<not> isl (Dir_init two_slots)"
  by code_simp

lemma two_slots_nonempty:
  "map (\<lambda>ptr. 0x20 * ptr)
     (filter (\<lambda>ptr. drop 256 two_slots ! nat (0x20 * ptr + 0x02) \<noteq> 0)
        [0 .. int (length (drop 256 two_slots)) div 0x20 - 1]) = [32]"
  by code_simp


section \<open>The two conversion tables\<close>

lemma byte_conds: "(unat (b::byte) \<noteq> 9 \<and> unat b < 224) = (b \<noteq> 0x09 \<and> b < 0xE0)"
proof -
  have "(unat b = 9) = (b = 9)"
    by (simp add: word_unat_eq_iff)
  moreover have "(unat b < 224) = (b < 224)"
    by (simp add: word_less_nat_alt)
  ultimately show ?thesis by simp
qed

lemma table_lengths: "length PETtoASCtable = 256 \<and> length ASCtoPETtable = 256"
  by (simp add: PETtoASCtable_def ASCtoPETtable_def)

lemma ASCtoPET_single:
  assumes "c < 256"
  shows "ASCtoPET [c] = Inr [ASCtoPETtable ! c]"
  using assms
  by (simp add: ASCtoPET_def getitem_front table_lengths and_then_def)

text \<open>
  A lookup in a table of 256 entries laid out in 16 rows of 16, by row and column.
\<close>

lemma nth_concat_rows:
  "\<forall>r \<in> set rows. length r = k \<Longrightarrow> n < k * length rows \<Longrightarrow>
   concat rows ! n = rows ! (n div k) ! (n mod k)"
proof (induction rows arbitrary: n)
  case Nil
  then show ?case by simp
next
  case (Cons r rows)
  show ?case
  proof (cases "n < k")
    case True
    with Cons.prems show ?thesis by (simp add: nth_append)
  next
    case False
    then have k: "k \<le> n" by simp
    with Cons.prems have "n - k < k * length rows" by simp
    then have "concat rows ! (n - k) = rows ! ((n - k) div k) ! ((n - k) mod k)"
      using Cons.IH Cons.prems(1) by simp
    moreover have "0 < k" using Cons.prems(2) by (cases k) simp_all
    then have "n div k = Suc ((n - k) div k)" "n mod k = (n - k) mod k"
      using k by (simp_all add: le_div_geq le_mod_geq)
    ultimately show ?thesis
      using Cons.prems(1) False by (simp add: nth_append)
  qed
qed

lemma ASCtoPETtable_nth:
  assumes "n < 256"
  shows "ASCtoPETtable ! n =
    [
      [0x00, 0x01, 0x02, 0x03, 0x04, 0x05, 0x06, 0x07, 0x14, 0x20, 0x0d, 0x11, 0x93, 0x0a, 0x0e, 0x0f],
      [0x10, 0x0b, 0x12, 0x13, 0x08, 0x15, 0x16, 0x17, 0x18, 0x19, 0x1a, 0x1b, 0x1c, 0x1d, 0x1e, 0x1f],
      [0x20, 0x21, 0x22, 0x23, 0x24, 0x25, 0x26, 0x27, 0x28, 0x29, 0x2a, 0x2b, 0x2c, 0x2d, 0x2e, 0x2f],
      [0x30, 0x31, 0x32, 0x33, 0x34, 0x35, 0x36, 0x37, 0x38, 0x39, 0x3a, 0x3b, 0x3c, 0x3d, 0x3e, 0x3f],
      [0x40, 0xc1, 0xc2, 0xc3, 0xc4, 0xc5, 0xc6, 0xc7, 0xc8, 0xc9, 0xca, 0xcb, 0xcc, 0xcd, 0xce, 0xcf],
      [0xd0, 0xd1, 0xd2, 0xd3, 0xd4, 0xd5, 0xd6, 0xd7, 0xd8, 0xd9, 0xda, 0x5b, 0x5c, 0x5d, 0x5e, 0x5f],
      [0xc0, 0x41, 0x42, 0x43, 0x44, 0x45, 0x46, 0x47, 0x48, 0x49, 0x4a, 0x4b, 0x4c, 0x4d, 0x4e, 0x4f],
      [0x50, 0x51, 0x52, 0x53, 0x54, 0x55, 0x56, 0x57, 0x58, 0x59, 0x5a, 0xdb, 0xdc, 0xdd, 0xde, 0xdf],
      [0x80, 0x81, 0x82, 0x83, 0x84, 0x85, 0x86, 0x87, 0x88, 0x89, 0x8a, 0x8b, 0x8c, 0x8d, 0x8e, 0x8f],
      [0x90, 0x91, 0x92, 0x0c, 0x94, 0x95, 0x96, 0x97, 0x98, 0x99, 0x9a, 0x9b, 0x9c, 0x9d, 0x9e, 0x9f],
      [0xa0, 0xa1, 0xa2, 0xa3, 0xa4, 0xa5, 0xa6, 0xa7, 0xa8, 0xa9, 0xaa, 0xab, 0xac, 0xad, 0xae, 0xaf],
      [0xb0, 0xb1, 0xb2, 0xb3, 0xb4, 0xb5, 0xb6, 0xb7, 0xb8, 0xb9, 0xba, 0xbb, 0xbc, 0xbd, 0xbe, 0xbf],
      [0x60, 0x61, 0x62, 0x63, 0x64, 0x65, 0x66, 0x67, 0x68, 0x69, 0x6a, 0x6b, 0x6c, 0x6d, 0x6e, 0x6f],
      [0x70, 0x71, 0x72, 0x73, 0x74, 0x75, 0x76, 0x77, 0x78, 0x79, 0x7a, 0x7b, 0x7c, 0x7d, 0x7e, 0x7f],
      [0xe0, 0xe1, 0xe2, 0xe3, 0xe4, 0xe5, 0xe6, 0xe7, 0xe8, 0xe9, 0xea, 0xeb, 0xec, 0xed, 0xee, 0xef],
      [0xf0, 0xf1, 0xf2, 0xf3, 0xf4, 0xf5, 0xf6, 0xf7, 0xf8, 0xf9, 0xfa, 0xfb, 0xfc, 0xfd, 0xfe, 0xff] :: nat list] ! (n div 16) ! (n mod 16)"
  (is "_ = ?rows ! _ ! _")
proof -
  have "ASCtoPETtable = concat ?rows"
    by (simp add: ASCtoPETtable_def)
  moreover have "concat ?rows ! n = ?rows ! (n div 16) ! (n mod 16)"
    by (rule nth_concat_rows) (use assms in simp_all)
  ultimately show ?thesis by (simp only:)
qed

lemma PETtoASCtable_range: "\<forall>v \<in> set PETtoASCtable. v < 256"
  by (simp add: PETtoASCtable_def)

lemma tables_composed:
  "map (\<lambda>v. ASCtoPETtable ! v) PETtoASCtable =
     [0 ..< 9] @ [0x20] @ [10 ..< 224] @ map (\<lambda>n. n - 0x40) [224 ..< 256]"
proof -
  have "[0 ..< 9] = [0, 1, 2, 3, 4, 5, 6, 7, 8 :: nat]"
    by code_simp
  then show ?thesis
    by (simp add: PETtoASCtable_def ASCtoPETtable_nth)
qed

lemma tables_composed_nth:
  assumes "n < 256"
  shows "ASCtoPETtable ! (PETtoASCtable ! n) =
           (if n = 9 then 0x20 else if n < 224 then n else n - 0x40)"
proof -
  have "ASCtoPETtable ! (PETtoASCtable ! n) = map (\<lambda>v. ASCtoPETtable ! v) PETtoASCtable ! n"
    using assms by (simp add: table_lengths)
  also have "\<dots> = (if n = 9 then 0x20 else if n < 224 then n else n - 0x40)"
    unfolding tables_composed using assms
    by (auto simp add: nth_append nth_Cons')
  finally show ?thesis .
qed


text \<open>The upper 96 entries of the PETSCII to ASCII table.\<close>

lemma PETtoASCtable_upper_half:
  "drop 160 PETtoASCtable =
     [160 ..< 192]
     @ [0x60, 0x41, 0x42, 0x43, 0x44, 0x45, 0x46, 0x47, 0x48, 0x49, 0x4a, 0x4b, 0x4c, 0x4d, 0x4e, 0x4f,
        0x50, 0x51, 0x52, 0x53, 0x54, 0x55, 0x56, 0x57, 0x58, 0x59, 0x5a, 0x7b, 0x7c, 0x7d, 0x7e, 0x7f]
     @ [160 ..< 192]"
  by (simp add: PETtoASCtable_def)

lemma nth_third_segment:
  "length A = 32 \<Longrightarrow> length B = 32 \<Longrightarrow> 64 \<le> i \<Longrightarrow> (A @ B @ C) ! i = C ! (i - 64)"
  by (auto simp add: nth_append)

lemma nth_first_segment: "i < length A \<Longrightarrow> (A @ R) ! i = A ! i"
  by (simp add: nth_append)

lemma PETtoASCtable_graphics:
  assumes "224 \<le> n" and "n < 256"
  shows "PETtoASCtable ! n = n - 64" and "PETtoASCtable ! (n - 64) = n - 64"
proof -
  have d: "PETtoASCtable ! (160 + i) = drop 160 PETtoASCtable ! i" for i
    by (simp add: table_lengths)
  have seg: "[160 ..< 192] ! (n - 224) = 160 + (n - 224)"
    using assms by (intro nth_upt) simp
  have "drop 160 PETtoASCtable ! (n - 160) = [160 ..< 192] ! (n - 160 - 64)"
    unfolding PETtoASCtable_upper_half
    using assms by (intro nth_third_segment) simp_all
  moreover have "n - 160 - 64 = n - 224" by simp
  ultimately have "PETtoASCtable ! (160 + (n - 160)) = n - 64"
    using seg assms unfolding d by simp
  then show "PETtoASCtable ! n = n - 64" using assms by simp
  have "drop 160 PETtoASCtable ! (n - 224) = [160 ..< 192] ! (n - 224)"
    unfolding PETtoASCtable_upper_half
    using assms by (intro nth_first_segment) simp
  then have "PETtoASCtable ! (160 + (n - 224)) = n - 64"
    using seg assms unfolding d by simp
  moreover have "160 + (n - 224) = n - 64" using assms by simp
  ultimately show "PETtoASCtable ! (n - 64) = n - 64" by simp
qed

lemma byte_minus_64: "0xE0 \<le> (b::byte) \<Longrightarrow> unat (b - 0x40) = unat b - 64"
  by (simp add: unat_sub word_le_nat_alt)

text \<open>Every track/sector pair of the disk geometry addresses a byte of a 256-byte sector.\<close>

lemma geometry_offset_in_buffer:
  assumes "1 \<le> track" "track \<le> 40" "0 \<le> sector" "sector < getsectors track"
  shows "0 \<le> 4 * track + 1 + sector div 8 \<and> 4 * track + 1 + sector div 8 < 256"
proof -
  have "getsectors track \<le> 21" by (simp add: getsectors_def)
  then have "sector div 8 \<le> 2" using assms by simp
  then show ?thesis using assms by simp
qed


section \<open>Geometry\<close>

text \<open>
  Claim C9. For every integer track, \<open>getsectors\<close> returns 21 on tracks 1 to 17, 19 on
  tracks 18 to 24, 18 on tracks 25 to 30, 17 on tracks 31 to 40, and 0 on every track
  below 1 or above 40.
\<close>

theorem C9_getsectors:
  "(1 \<le> track \<and> track \<le> 17 \<longrightarrow> getsectors track = 21)
   \<and> (18 \<le> track \<and> track \<le> 24 \<longrightarrow> getsectors track = 19)
   \<and> (25 \<le> track \<and> track \<le> 30 \<longrightarrow> getsectors track = 18)
   \<and> (31 \<le> track \<and> track \<le> 40 \<longrightarrow> getsectors track = 17)
   \<and> (track < 1 \<or> track > 40 \<longrightarrow> getsectors track = 0)"
  by (simp add: getsectors_def)

text \<open>The zone boundaries and three tracks outside the disk, through the theorem.\<close>

theorem C9_getsectors_witness:
  "getsectors 1 = 21 \<and> getsectors 17 = 21 \<and> getsectors 18 = 19 \<and> getsectors 24 = 19
   \<and> getsectors 25 = 18 \<and> getsectors 30 = 18 \<and> getsectors 31 = 17 \<and> getsectors 40 = 17
   \<and> getsectors 0 = 0 \<and> getsectors 41 = 0 \<and> getsectors (- 3) = 0"
  using C9_getsectors[of 1] C9_getsectors[of 17] C9_getsectors[of 18] C9_getsectors[of 24]
    C9_getsectors[of 25] C9_getsectors[of 30] C9_getsectors[of 31] C9_getsectors[of 40]
    C9_getsectors[of 0] C9_getsectors[of 41] C9_getsectors[of "- 3"]
  by simp

text \<open>
  Claim C10. The absolute sector number is linear in the sector and additive across
  tracks: for every track \<open>t \<ge> 1\<close> and every sector \<open>s\<close>,
  \<open>getsectornumber t s = getsectornumber t 0 + s\<close> and
  \<open>getsectornumber (t + 1) 0 = getsectornumber t 0 + getsectors t\<close>.
\<close>

theorem C10_getsectornumber_linear:
  assumes "1 \<le> t"
  shows "getsectornumber t s = getsectornumber t 0 + s
       \<and> getsectornumber (t + 1) 0 = getsectornumber t 0 + getsectors t"
proof -
  have "[1 .. t] = [1 .. t - 1] @ [t]"
    using assms upto_rec2[of 1 t] by simp
  then show ?thesis
    by (simp add: getsectornumber_def)
qed

text \<open>Track 18, the directory track, sector 5.\<close>

theorem C10_getsectornumber_linear_witness:
  "getsectornumber 18 5 = getsectornumber 18 0 + 5
   \<and> getsectornumber (18 + 1) 0 = getsectornumber 18 0 + getsectors 18"
  using C10_getsectornumber_linear[of 18 5] by simp


section \<open>The allocation bitmap\<close>

text \<open>
  \<open>deallocateblock\<close> sets the bit of a block and \<open>blockisfree\<close> tests that the bit is
  set, so on the sector with track 1 fully free a call of \<open>deallocateblock\<close> for track 1,
  sector 0 is followed by \<open>blockisfree\<close> returning \<open>True\<close>, not \<open>False\<close>.
\<close>

theorem C1_counterexample:
  "blockisfree (projr (deallocateblock \<lparr>bam = track1_free\<rparr> 1 0)) 1 0 = Inr True"
  by (simp add: track1_free_def deallocateblock_at blockisfree_at norm_index_def)

text \<open>
  Claim C1, with the two operations in the roles the code gives them. Starting from a
  256-byte BAM sector in which track 1 is fully free (free-count byte 21, bitmap bytes
  \<open>FF FF 1F\<close>), block (1, 0) is free; \<open>allocateblock\<close> for (1, 0) makes \<open>blockisfree\<close>
  return \<open>False\<close>, \<open>deallocateblock\<close> for (1, 0) leaves it \<open>True\<close>, and \<open>allocateblock\<close>
  followed by \<open>deallocateblock\<close> gives back the original sector, byte for byte.
\<close>

theorem C1_round_trip:
  assumes len: "length (bam self) = 256"
    and count: "bam self ! 4 = 21"
    and bits: "bam self ! 5 = 0xFF" "bam self ! 6 = 0xFF" "bam self ! 7 = 0x1F"
  shows "blockisfree self 1 0 = Inr True
       \<and> and_then (allocateblock self 1 0) (\<lambda>s. blockisfree s 1 0) = Inr False
       \<and> and_then (deallocateblock self 1 0) (\<lambda>s. blockisfree s 1 0) = Inr True
       \<and> and_then (allocateblock self 1 0) (\<lambda>s. deallocateblock s 1 0) = Inr self"
proof -
  have idx: "norm_index (length (bam self)) (4 * 1 + 1 + 0 div 8) = Some 5"
    using len by (simp add: norm_index_def)
  have a: "allocateblock self 1 0 = Inr (self\<lparr>bam := (bam self)[5 := 0xFE]\<rparr>)"
    using allocateblock_at[OF idx] bits(1) by simp
  have d: "deallocateblock self 1 0 = Inr (self\<lparr>bam := (bam self)[5 := 0xFF]\<rparr>)"
    using deallocateblock_at[OF idx] bits(1) by simp
  have same: "(bam self)[5 := 0xFF] = bam self"
    using bits(1) list_update_id[of "bam self" 5] by simp
  have f0: "blockisfree self 1 0 = Inr True"
    using blockisfree_at[OF idx] bits(1) by simp
  have idx': "norm_index (length (bam (self\<lparr>bam := (bam self)[5 := 0xFE]\<rparr>))) (4 * 1 + 1 + 0 div 8) = Some 5"
    using len by (simp add: norm_index_def)
  have f1: "blockisfree (self\<lparr>bam := (bam self)[5 := 0xFE]\<rparr>) 1 0 = Inr False"
    using blockisfree_at[OF idx'] len by simp
  have d1: "deallocateblock (self\<lparr>bam := (bam self)[5 := 0xFE]\<rparr>) 1 0 = Inr self"
    using deallocateblock_at[OF idx'] len same by simp
  show ?thesis
    using a d f0 f1 d1 same by (simp add: and_then_def)
qed

text \<open>The sector \<open>track1_free\<close> meets the hypotheses.\<close>

theorem C1_round_trip_witness:
  "blockisfree \<lparr>bam = track1_free\<rparr> 1 0 = Inr True
   \<and> and_then (allocateblock \<lparr>bam = track1_free\<rparr> 1 0) (\<lambda>s. blockisfree s 1 0) = Inr False
   \<and> and_then (allocateblock \<lparr>bam = track1_free\<rparr> 1 0) (\<lambda>s. deallocateblock s 1 0)
       = Inr \<lparr>bam = track1_free\<rparr>"
  using C1_round_trip[of "\<lparr>bam = track1_free\<rparr>"] by (simp add: track1_free_def)

text \<open>
  The three operations do not succeed for every track/sector pair: track 64, sector 0
  gives the index 257, beyond a 256-byte buffer, and each of them raises IndexError,
  the first time and every time after.
\<close>

theorem C4_counterexample:
  "blockisfree \<lparr>bam = replicate 256 0xFF\<rparr> 64 0 = Inl IndexError
   \<and> allocateblock \<lparr>bam = replicate 256 0xFF\<rparr> 64 0 = Inl IndexError
   \<and> deallocateblock \<lparr>bam = replicate 256 0xFF\<rparr> 64 0 = Inl IndexError"
  using bitop_raises[of "\<lparr>bam = replicate 256 0xFF\<rparr>" 64 0]
  by (simp add: norm_index_def)

text \<open>
  Claim C4, for the pairs that address a byte of the buffer. For every 256-byte BAM
  buffer and every track/sector pair whose offset \<open>4 * track + 1 + sector div 8\<close> lies
  in \<open>0 .. 255\<close> (by \<open>geometry_offset_in_buffer\<close> every pair of the disk geometry is one):
  \<open>blockisfree\<close> returns \<open>True\<close> exactly when bit \<open>sector mod 8\<close> of the byte at that
  offset is set; \<open>allocateblock\<close> clears exactly that bit and \<open>deallocateblock\<close> sets
  exactly that bit, every other bit and byte staying as it was; and each of the two is
  idempotent: applying it a second time raises nothing and gives the state the first
  application gave.
\<close>

theorem C4_bit_operations:
  assumes len: "length (bam self) = 256"
    and lo: "0 \<le> 4 * track + 1 + sector div 8"
    and hi: "4 * track + 1 + sector div 8 < 256"
  shows "blockisfree self track sector =
           Inr (bit (bam self ! nat (4 * track + 1 + sector div 8)) (nat (sector mod 8)))
       \<and> allocateblock self track sector =
           Inr (self\<lparr>bam := (bam self)[nat (4 * track + 1 + sector div 8) :=
                  unset_bit (nat (sector mod 8))
                    (bam self ! nat (4 * track + 1 + sector div 8))]\<rparr>)
       \<and> deallocateblock self track sector =
           Inr (self\<lparr>bam := (bam self)[nat (4 * track + 1 + sector div 8) :=
                  set_bit (nat (sector mod 8))
                    (bam self ! nat (4 * track + 1 + sector div 8))]\<rparr>)
       \<and> and_then (allocateblock self track sector) (\<lambda>s. allocateblock s track sector) =
           allocateblock self track sector
       \<and> and_then (deallocateblock self track sector) (\<lambda>s. deallocateblock s track sector) =
           deallocateblock self track sector"
proof -
  let ?j = "nat (4 * track + 1 + sector div 8)"
  let ?k = "nat (sector mod 8)"
  have j: "?j < length (bam self)" using len lo hi by simp
  have idx: "norm_index (length (bam self)) (4 * track + 1 + sector div 8) = Some ?j"
    using len lo hi by (simp add: norm_index_front)
  have idx': "norm_index (length (bam (self\<lparr>bam := (bam self)[?j := w]\<rparr>)))
                (4 * track + 1 + sector div 8) = Some ?j" for w
    using idx by simp
  have a: "allocateblock self track sector =
             Inr (self\<lparr>bam := (bam self)[?j := unset_bit ?k (bam self ! ?j)]\<rparr>)"
    by (rule allocateblock_at[OF idx])
  have d: "deallocateblock self track sector =
             Inr (self\<lparr>bam := (bam self)[?j := set_bit ?k (bam self ! ?j)]\<rparr>)"
    by (rule deallocateblock_at[OF idx])
  have aa: "allocateblock (self\<lparr>bam := (bam self)[?j := unset_bit ?k (bam self ! ?j)]\<rparr>)
              track sector =
            Inr (self\<lparr>bam := (bam self)[?j := unset_bit ?k (bam self ! ?j)]\<rparr>)"
    using allocateblock_at[OF idx'] j by (simp add: unset_bit_twice)
  have dd: "deallocateblock (self\<lparr>bam := (bam self)[?j := set_bit ?k (bam self ! ?j)]\<rparr>)
              track sector =
            Inr (self\<lparr>bam := (bam self)[?j := set_bit ?k (bam self ! ?j)]\<rparr>)"
    using deallocateblock_at[OF idx'] j by (simp add: set_bit_twice)
  show ?thesis
    using blockisfree_at[OF idx] a d aa dd by (simp add: and_then_def)
qed

text \<open>The last sector of track 1 and the first unused bit after it.\<close>

theorem C4_bit_operations_witness:
  "blockisfree \<lparr>bam = track1_free\<rparr> 1 20 = Inr True
   \<and> allocateblock \<lparr>bam = track1_free\<rparr> 1 20 = Inr \<lparr>bam = track1_free[7 := 0x0F]\<rparr>
   \<and> deallocateblock \<lparr>bam = track1_free\<rparr> 1 21 = Inr \<lparr>bam = track1_free[7 := 0x3F]\<rparr>"
  using C4_bit_operations[of "\<lparr>bam = track1_free\<rparr>" 1 20]
    C4_bit_operations[of "\<lparr>bam = track1_free\<rparr>" 1 21]
  by (simp add: track1_free_def)

text \<open>
  Claim C7. For every track/sector pair of the disk geometry (track 1 to 40, sector from 0
  to below the track's sector count), \<open>allocateblock\<close> and \<open>deallocateblock\<close> return a
  buffer of the same length that differs from the old one at most in the bitmap byte at
  offset \<open>4 * track + 1 + sector div 8\<close>; in particular the free-count byte at offset
  \<open>4 * track\<close> keeps its value.
\<close>

theorem C7_frame:
  assumes len: "length (bam self) = 256"
    and track: "1 \<le> track" "track \<le> 40"
    and sector: "0 \<le> sector" "sector < getsectors track"
  shows "(\<exists>s. allocateblock self track sector = Inr s
            \<and> length (bam s) = 256
            \<and> (\<forall>i < 256. i \<noteq> nat (4 * track + 1 + sector div 8) \<longrightarrow> bam s ! i = bam self ! i)
            \<and> bam s ! nat (4 * track) = bam self ! nat (4 * track))
       \<and> (\<exists>s. deallocateblock self track sector = Inr s
            \<and> length (bam s) = 256
            \<and> (\<forall>i < 256. i \<noteq> nat (4 * track + 1 + sector div 8) \<longrightarrow> bam s ! i = bam self ! i)
            \<and> bam s ! nat (4 * track) = bam self ! nat (4 * track))"
proof -
  have "getsectors track \<le> 21" by (simp add: getsectors_def)
  then have s: "sector div 8 \<le> 2" using sector by simp
  have lo: "0 \<le> 4 * track + 1 + sector div 8" using track sector by simp
  have hi: "4 * track + 1 + sector div 8 < 256" using track s by simp
  have idx: "norm_index (length (bam self)) (4 * track + 1 + sector div 8)
              = Some (nat (4 * track + 1 + sector div 8))"
    using len lo hi by (simp add: norm_index_front)
  have ne: "nat (4 * track) \<noteq> nat (4 * track + 1 + sector div 8)"
    using track sector by simp
  show ?thesis
    using allocateblock_at[OF idx] deallocateblock_at[OF idx] len ne by simp
qed

text \<open>Track 1, sector 0: the free count stays 21 and the neighbouring bitmap byte stays.\<close>

theorem C7_frame_witness:
  "bam (projr (allocateblock \<lparr>bam = track1_free\<rparr> 1 0)) ! 4 = 21
   \<and> bam (projr (deallocateblock \<lparr>bam = track1_free\<rparr> 1 0)) ! 4 = 21
   \<and> bam (projr (allocateblock \<lparr>bam = track1_free\<rparr> 1 0)) ! 6 = 0xFF"
  using C7_frame[of "\<lparr>bam = track1_free\<rparr>" 1 0]
  by (auto simp add: track1_free_def getsectors_def)





section \<open>Blocks free\<close>

text \<open>
  Claim C5. On a 256-byte BAM buffer \<open>getblocksfree\<close> returns the sum of the free-count
  bytes at the offsets \<open>4 * track\<close> of the tracks 1 to 35 other than track 18, whose
  byte at offset \<open>0x48\<close> is never read; and for every buffer, replacing the byte at offset
  \<open>0x48\<close> by any value leaves the result of \<open>getblocksfree\<close> as it was.
\<close>

theorem C5_getblocksfree:
  "(length (bam self) = 256 \<longrightarrow>
      getblocksfree self =
        Inr (sum_list (map (\<lambda>track. uint (bam self ! nat (4 * track)))
                         (filter (\<lambda>track. track \<noteq> 18) [1 .. 35]))))
   \<and> getblocksfree (self\<lparr>bam := (bam self)[0x48 := v]\<rparr>) = getblocksfree self"
proof -
  have "getblocksfree self =
        Inr (sum_list (map (\<lambda>track. uint (bam self ! nat (4 * track)))
                         (filter (\<lambda>track. track \<noteq> 18) [1 .. 35])))"
    if "length (bam self) = 256"
    unfolding getblocksfree_def count_offsets tracks_1_35
    using that by (subst getblocksfree_loop_sum) simp_all
  moreover have "getblocksfree_loop ((bam self)[0x48 := v]) 0 (range3 0x04 0x90 0x04) =
                 getblocksfree_loop (bam self) 0 (range3 0x04 0x90 0x04)"
    unfolding count_offsets by (rule getblocksfree_loop_update) simp
  then have "getblocksfree (self\<lparr>bam := (bam self)[0x48 := v]\<rparr>) = getblocksfree self"
    by (simp add: getblocksfree_def)
  ultimately show ?thesis by blast
qed

text \<open>The sector with only track 1 free has 21 blocks free, whatever byte \<open>0x48\<close> holds.\<close>

theorem C5_getblocksfree_witness:
  "getblocksfree \<lparr>bam = track1_free\<rparr> = Inr 21
   \<and> getblocksfree \<lparr>bam = track1_free[0x48 := 200]\<rparr> = Inr 21"
  using C5_getblocksfree[of "\<lparr>bam = track1_free\<rparr>" 200]
  by (simp add: track1_free_def tracks_1_35)


section \<open>Construction and the directory pass\<close>

text \<open>
  Neither constructor looks at the length of its buffer, and the module has no
  MalformedBuffer error. A BAM over the empty buffer is built without complaint and fails
  only later, with IndexError, when \<open>getblocksfree\<close> subscripts it; \<open>Dir\<close> over the empty
  buffer fails with that IndexError; \<open>Dir\<close> over 200 bytes, fewer than 256 + 32, returns a
  directory.
\<close>

theorem C3_counterexample:
  "BAM_init [] = \<lparr>bam = []\<rparr>
   \<and> getblocksfree (BAM_init []) = Inl IndexError
   \<and> Dir_init [] = Inl IndexError
   \<and> \<not> isl (Dir_init (replicate 200 0))"
  using Dir_init_no_slot[of "replicate 200 0"]
  by (auto simp add: BAM_init_def getblocksfree_short Dir_init_short)

text \<open>
  Claim C3, as the code behaves. Constructing a BAM accepts a buffer of any length, and
  a BAM over fewer than 141 bytes raises IndexError when \<open>getblocksfree\<close> reads it.
  Constructing a \<open>Dir\<close> from fewer than 141 bytes raises IndexError, from the out-of-range
  read in \<open>getblocksfree\<close>; from 141 to 287 bytes it returns a directory with an empty
  file list.
\<close>

theorem C3_no_length_check:
  "BAM_init b = \<lparr>bam = b\<rparr>
   \<and> (length b < 141 \<longrightarrow> getblocksfree (BAM_init b) = Inl IndexError)
   \<and> (length dirblocks < 141 \<longrightarrow> Dir_init dirblocks = Inl IndexError)
   \<and> (141 \<le> length dirblocks \<and> length dirblocks < 288 \<longrightarrow>
        (\<exists>d. Dir_init dirblocks = Inr d \<and> filelist d = []))"
  using Dir_init_no_slot[of dirblocks]
  by (auto simp add: BAM_init_def getblocksfree_short Dir_init_short)

text \<open>A buffer of 100 bytes raises; a buffer of one zeroed sector gives an empty directory.\<close>

theorem C3_no_length_check_witness:
  "getblocksfree (BAM_init (replicate 100 0)) = Inl IndexError
   \<and> Dir_init (replicate 100 0) = Inl IndexError
   \<and> (\<exists>d. Dir_init (replicate 256 0) = Inr d \<and> filelist d = [])"
  using C3_no_length_check[of "replicate 100 0" "replicate 100 0"]
    C3_no_length_check[of "replicate 100 0" "replicate 256 0"]
  by simp

text \<open>
  \<open>PETtoASC\<close> sends the unshifted PETSCII letters \<open>0x41\<close> to \<open>0x5A\<close> to lower-case ASCII.
  On the scenario with the name bytes \<open>54 45 53 54 20 44 49 53 4B\<close> and \<open>48 45 4C 4C 4F\<close>
  the title is \<open>test disk\<close> and the name of the entry is \<open>hello\<close>.
\<close>

theorem C6_counterexample:
  "title (projr (Dir_init (image_bam @ image_dir))) = str ''test disk''
   \<and> title (projr (Dir_init (image_bam @ image_dir))) \<noteq> str ''TEST DISK''
   \<and> f_name (filelist (projr (Dir_init (image_bam @ image_dir))) ! 0) = str ''hello''
   \<and> f_name (filelist (projr (Dir_init (image_bam @ image_dir))) ! 0) \<noteq> str ''HELLO''"
  by (simp add: image_parse str_def)

text \<open>
  Claim C6, with the bytes of the scenario fixed. The directory pass skips every 32-byte
  slot whose type byte, at offset \<open>base + 0x02\<close>, is zero: when the pass succeeds, the
  bases of the entries of \<open>filelist\<close> are, in slot order, exactly the bases of the slots
  with a non-zero type byte. For the scenario (a BAM sector with a 16-byte name field
  padded with \<open>0xA0\<close> and a 2-byte ID, one directory sector with a single closed, unlocked
  PRG entry of 5 blocks at track 17, sector 0) the parse succeeds with one entry of type
  \<open>PRG\<close>, size 5, closed and not locked, and the decoded texts follow the codes of the
  letters: with the shifted codes \<open>0xC1\<close> to \<open>0xDA\<close>, which \<open>ASCtoPET\<close> gives for upper-case
  ASCII, the title is \<open>TEST DISK\<close> and the name \<open>HELLO\<close>; with the unshifted codes \<open>0x41\<close>
  to \<open>0x5A\<close> the title is \<open>test disk\<close> and the name \<open>hello\<close>.
\<close>

theorem C6_dirpass:
  "(Dir_init dirblocks = Inr d \<longrightarrow>
      map f_base (filelist d) =
        map (\<lambda>ptr. 0x20 * ptr)
          (filter (\<lambda>ptr. drop 256 dirblocks ! nat (0x20 * ptr + 0x02) \<noteq> 0)
             [0 .. int (length (drop 256 dirblocks)) div 0x20 - 1]))
   \<and> (\<exists>d. Dir_init (scenario_bam @ scenario_dir) = Inr d
          \<and> title d = str ''TEST DISK''
          \<and> length (filelist d) = 1
          \<and> f_name (filelist d ! 0) = str ''HELLO''
          \<and> f_type (filelist d ! 0) = str ''PRG''
          \<and> f_size (filelist d ! 0) = 5
          \<and> f_closed (filelist d ! 0) = True
          \<and> f_locked (filelist d ! 0) = False)
   \<and> (\<exists>d. Dir_init (image_bam @ image_dir) = Inr d
          \<and> title d = str ''test disk''
          \<and> length (filelist d) = 1
          \<and> f_name (filelist d ! 0) = str ''hello''
          \<and> f_type (filelist d ! 0) = str ''PRG''
          \<and> f_size (filelist d ! 0) = 5
          \<and> f_closed (filelist d ! 0) = True
          \<and> f_locked (filelist d ! 0) = False)"
proof -
  have "map f_base (filelist d) =
        map (\<lambda>ptr. 0x20 * ptr)
          (filter (\<lambda>ptr. drop 256 dirblocks ! nat (0x20 * ptr + 0x02) \<noteq> 0)
             [0 .. int (length (drop 256 dirblocks)) div 0x20 - 1])"
    if "Dir_init dirblocks = Inr d"
    using dirpass_loop_bases[OF Dir_init_filelist[OF that] slots_in_range] by simp
  then show ?thesis
    by (simp add: scenario_parse image_parse)
qed

text \<open>Of the two slots of \<open>two_slots\<close> only the second, at base 32, is listed.\<close>

theorem C6_dirpass_witness:
  "map f_base (filelist (projr (Dir_init two_slots))) = [32]"
proof -
  have "Dir_init two_slots = Inr (projr (Dir_init two_slots))"
    using two_slots_parse by simp
  then show ?thesis
    using C6_dirpass[of two_slots "projr (Dir_init two_slots)"] two_slots_nonempty by simp
qed


section \<open>The PETSCII codec\<close>

text \<open>
  The tables are not inverse to each other everywhere. PETSCII \<open>0x09\<close> goes to ASCII
  \<open>0x09\<close>, which \<open>ASCtoPETtable\<close> sends to \<open>0x20\<close>; PETSCII \<open>0xE0\<close> goes to \<open>0xA0\<close>, as PETSCII
  \<open>0xA0\<close> does, and comes back as \<open>0xA0\<close>.
\<close>

theorem C2_counterexample:
  "ASCtoPET (PETtoASC [0x09]) = Inr [0x20] \<and> ASCtoPET (PETtoASC [0xE0]) = Inr [0xA0]"
  by code_simp

text \<open>
  Claim C2, for the bytes where it holds. For a single byte \<open>b\<close>, converting to ASCII
  and back gives the one-character string \<open>chr(b)\<close> exactly when \<open>b\<close> is not \<open>0x09\<close> and
  is below \<open>0xE0\<close>. The other bytes collide: \<open>0x09\<close> comes back as \<open>0x20\<close>, and every byte
  \<open>b\<close> from \<open>0xE0\<close> to \<open>0xFF\<close> decodes to the ASCII code \<open>b - 0x40\<close>, in \<open>0xA0\<close> to \<open>0xBF\<close>,
  which is also what the byte \<open>b - 0x40\<close> decodes to, and comes back as \<open>b - 0x40\<close>.
\<close>

theorem C2_round_trip:
  "((ASCtoPET (PETtoASC [b]) = Inr [unat b]) = (b \<noteq> 0x09 \<and> b < 0xE0))
   \<and> (b = 0x09 \<longrightarrow> ASCtoPET (PETtoASC [b]) = Inr [0x20])
   \<and> (0xE0 \<le> b \<longrightarrow>
        PETtoASC [b] = [unat b - 0x40]
        \<and> PETtoASC [b - 0x40] = [unat b - 0x40]
        \<and> ASCtoPET (PETtoASC [b]) = Inr [unat b - 0x40])"
proof -
  have n: "unat b < 256"
    using unsigned_less[of b, where 'a = nat] by simp
  then have "PETtoASCtable ! unat b \<in> set PETtoASCtable"
    by (simp add: table_lengths)
  then have t: "PETtoASCtable ! unat b < 256"
    using PETtoASCtable_range by blast
  have conv: "ASCtoPET (PETtoASC [b]) = Inr [ASCtoPETtable ! (PETtoASCtable ! unat b)]"
    by (simp add: PETtoASC_def ASCtoPET_single[OF t])
  have comp: "ASCtoPETtable ! (PETtoASCtable ! unat b) =
                (if unat b = 9 then 0x20 else if unat b < 224 then unat b else unat b - 0x40)"
    by (rule tables_composed_nth[OF n])
  have "(ASCtoPETtable ! (PETtoASCtable ! unat b) = unat b) = (unat b \<noteq> 9 \<and> unat b < 224)"
    using comp by auto
  then have first: "(ASCtoPET (PETtoASC [b]) = Inr [unat b]) = (b \<noteq> 0x09 \<and> b < 0xE0)"
    by (simp add: conv byte_conds)
  have tab: "ASCtoPET (PETtoASC [b]) = Inr [0x20]" if "b = 0x09"
  proof -
    have "ASCtoPETtable ! (PETtoASCtable ! unat b) = 0x20"
      using that comp by simp
    then show ?thesis by (simp only: conv)
  qed
  have high: "PETtoASC [b] = [unat b - 0x40]
        \<and> PETtoASC [b - 0x40] = [unat b - 0x40]
        \<and> ASCtoPET (PETtoASC [b]) = Inr [unat b - 0x40]" if "0xE0 \<le> b"
  proof -
    from that have ge: "224 \<le> unat b" by (simp add: word_le_nat_alt)
    then have "unat b \<noteq> 9" "\<not> unat b < 224" by simp_all
    with comp have "ASCtoPETtable ! (PETtoASCtable ! unat b) = unat b - 0x40" by simp
    then show ?thesis
      using PETtoASCtable_graphics[OF ge n] byte_minus_64[OF that]
      by (simp add: conv) (simp add: PETtoASC_def)
  qed
  show ?thesis using first tab high by blast
qed

text \<open>
  The byte \<open>0x41\<close> survives the round trip; \<open>0x09\<close> comes back as \<open>0x20\<close>; \<open>0xFF\<close> and
  \<open>0xBF\<close> both decode to \<open>0xBF\<close>, and \<open>0xFF\<close> comes back as \<open>0xBF\<close>.
\<close>

theorem C2_round_trip_witness:
  "ASCtoPET (PETtoASC [0x41]) = Inr [0x41]
   \<and> ASCtoPET (PETtoASC [0x09]) = Inr [0x20]
   \<and> PETtoASC [0xFF] = [0xBF] \<and> PETtoASC [0xBF] = [0xBF]
   \<and> ASCtoPET (PETtoASC [0xFF]) = Inr [0xBF]"
proof -
  have low: "ASCtoPET (PETtoASC [0x41]) = Inr [0x41]"
    using C2_round_trip[of "0x41"] by simp
  have tab: "ASCtoPET (PETtoASC [0x09]) = Inr [0x20]"
    using C2_round_trip[of "0x09"] by simp
  have "0xE0 \<le> (0xFF::byte)" by simp
  with C2_round_trip[of "0xFF"]
  have high: "PETtoASC [0xFF] = [unat (0xFF::byte) - 0x40]
        \<and> PETtoASC [0xFF - 0x40] = [unat (0xFF::byte) - 0x40]
        \<and> ASCtoPET (PETtoASC [0xFF]) = Inr [unat (0xFF::byte) - 0x40]"
    by blast
  have u: "unat (0xFF::byte) - 0x40 = 0xBF" and v: "(0xFF::byte) - 0x40 = 0xBF"
    by simp_all
  from low tab high show ?thesis
    unfolding u v by blast
qed

end
